theory Spec2Isabelle
  imports Complex_Main "HOL-Library.Char_ord" "HOL-Library.List_Lexorder"
begin

section \<open>Domain model (domain/models.go, domain errors)\<close>

text \<open>
  Go strings are byte sequences; they are modelled as \<open>string\<close> (lists of 8-bit
  characters). The time stamps of a metadata row (\<open>CreatedAt\<close>, \<open>UpdatedAt\<close>) are
  never read by the Terraform state engine and are left out of the row.
\<close>

record Metadata =
  m_ID :: string
  m_Path :: string
  m_Value :: string

record TFStateLock =
  lock_ID :: string
  lock_Operation :: string
  lock_Info :: string
  lock_Who :: string
  lock_Version :: string
  lock_Created :: string
  lock_Path :: string

record CreateMetadataRequest =
  cr_Path :: string
  cr_Value :: string

record UpdateMetadataRequest =
  ur_Path :: "string option"
  ur_Value :: "string option"

record MetadataListOptions =
  Prefix :: string

text \<open>
  An \<open>error\<close> value is either a \<open>*domain.NahError\<close> (its code and message; the
  details map is not modelled) or any other Go error (the wrapped database errors).
\<close>

datatype error = NahError string string | PlainError string

definition ErrorCodeNotFound :: string where "ErrorCodeNotFound = ''NOT_FOUND''"
definition ErrorCodeAlreadyExists :: string where "ErrorCodeAlreadyExists = ''ALREADY_EXISTS''"
definition ErrorCodeInvalidInput :: string where "ErrorCodeInvalidInput = ''INVALID_INPUT''"
definition ErrorCodeInternalError :: string where "ErrorCodeInternalError = ''INTERNAL_ERROR''"
definition ErrorCodeTooManyRequests :: string where
  "ErrorCodeTooManyRequests = ''TOO_MANY_REQUESTS''"
definition ErrorCodeServiceUnavailable :: string where
  "ErrorCodeServiceUnavailable = ''SERVICE_UNAVAILABLE''"

definition NotFoundError :: "string \<Rightarrow> string \<Rightarrow> error" where
  "NotFoundError resource identifier = NahError ErrorCodeNotFound (resource @ '' not found'')"

definition AlreadyExistsError :: "string \<Rightarrow> string \<Rightarrow> string \<Rightarrow> error" where
  "AlreadyExistsError resource field v =
     NahError ErrorCodeAlreadyExists
       (resource @ '' with '' @ field @ '' '' @ [CHR 0x27] @ v @ [CHR 0x27] @ '' already exists'')"

definition InvalidInputError :: "string \<Rightarrow> error" where
  "InvalidInputError message = NahError ErrorCodeInvalidInput message"

definition InternalError :: "string \<Rightarrow> error" where
  "InternalError message = NahError ErrorCodeInternalError message"


definition TooManyRequestsError :: "string \<Rightarrow> error" where
  "TooManyRequestsError message = NahError ErrorCodeTooManyRequests message"

definition ServiceUnavailableError :: "string \<Rightarrow> error" where
  "ServiceUnavailableError message = NahError ErrorCodeServiceUnavailable message"

fun IsNotFound :: "error \<Rightarrow> bool" where
  "IsNotFound (NahError code msg) = (code = ErrorCodeNotFound)"
| "IsNotFound (PlainError msg) = False"

section \<open>The metadata table (storage/sqlite/metadata_repository.go)\<close>

text \<open>
  The \<open>metadata\<close> table is the list of its rows. The schema declares \<open>id\<close> the
  primary key and \<open>path\<close> unique; \<open>wf_table\<close> is that invariant. The database
  engine is taken to execute every statement it is given: an input/output failure
  of the engine and its size limits (such as the longest \<open>LIKE\<close> pattern it
  accepts) are outside the model, a constraint violation is not.

  The SQL operators are modelled from SQLite's semantics: \<open>=\<close> on text compares
  bytes, \<open>ORDER BY path\<close> sorts by byte order, and \<open>LIKE\<close> treats \<open>%\<close> as any
  sequence, \<open>_\<close> as any one character and ASCII letters without regard to case.
\<close>

type_synonym table = "Metadata list"

definition wf_table :: "table \<Rightarrow> bool" where
  "wf_table tbl = (distinct (map m_ID tbl) \<and> distinct (map m_Path tbl))"

definition ascii_lower :: "char \<Rightarrow> char" where
  "ascii_lower c =
     (let n = (of_char c :: nat) in if 65 \<le> n \<and> n \<le> 90 then char_of (n + 32) else c)"

fun sql_like :: "string \<Rightarrow> string \<Rightarrow> bool" where
  "sql_like [] [] = True"
| "sql_like [] (c # s) = False"
| "sql_like (p # ps) [] = (p = CHR ''%'' \<and> sql_like ps [])"
| "sql_like (p # ps) (c # s) =
     (if p = CHR ''%'' then sql_like ps (c # s) \<or> sql_like (p # ps) s
      else (p = CHR ''_'' \<or> ascii_lower p = ascii_lower c) \<and> sql_like ps s)"

definition pathExists :: "string \<Rightarrow> table \<Rightarrow> bool" where
  "pathExists path tbl = (0 < length (filter (\<lambda>m. m_Path m = path) tbl))"

text \<open>
  \<open>Create\<close> draws the new row's identifier from \<open>uuid.New()\<close>, a random source
  outside the repository: the identifier drawn is the argument \<open>uid\<close>. The
  \<open>INSERT\<close> is refused by the primary key when the identifier is already in use.
\<close>

definition Create :: "string \<Rightarrow> CreateMetadataRequest \<Rightarrow> table \<Rightarrow> (error + Metadata) \<times> table" where
  "Create uid req tbl =
     (if pathExists (cr_Path req) tbl
      then (Inl (AlreadyExistsError ''metadata'' ''path'' (cr_Path req)), tbl)
      else
        let metadata = \<lparr>m_ID = uid, m_Path = cr_Path req, m_Value = cr_Value req\<rparr>
        in if uid \<in> set (map m_ID tbl)
           then (Inl (PlainError ''failed to create metadata''), tbl)
           else (Inr metadata, tbl @ [metadata]))"

definition GetByID :: "string \<Rightarrow> table \<Rightarrow> error + Metadata" where
  "GetByID ident tbl =
     (case find (\<lambda>m. m_ID m = ident) tbl of
        None \<Rightarrow> Inl (NotFoundError ''metadata'' ident)
      | Some m \<Rightarrow> Inr m)"

definition Update :: "string \<Rightarrow> UpdateMetadataRequest \<Rightarrow> table \<Rightarrow> (error + Metadata) \<times> table" where
  "Update ident req tbl =
     (case GetByID ident tbl of
        Inl err \<Rightarrow> (Inl err, tbl)
      | Inr existing \<Rightarrow>
          if (case ur_Path req of None \<Rightarrow> False
              | Some p \<Rightarrow> p \<noteq> m_Path existing \<and> pathExists p tbl)
          then (Inl (AlreadyExistsError ''metadata'' ''path'' (the (ur_Path req))), tbl)
          else
            let e1 = (case ur_Path req of None \<Rightarrow> existing | Some p \<Rightarrow> existing\<lparr>m_Path := p\<rparr>);
                e2 = (case ur_Value req of None \<Rightarrow> e1 | Some v \<Rightarrow> e1\<lparr>m_Value := v\<rparr>)
            in (Inr e2,
                map (\<lambda>m. if m_ID m = ident
                          then m\<lparr>m_Path := m_Path e2, m_Value := m_Value e2\<rparr> else m) tbl))"

definition List_md :: "MetadataListOptions \<Rightarrow> table \<Rightarrow> error + Metadata list" where
  "List_md opts tbl =
     Inr (sort_key m_Path
           (if Prefix opts \<noteq> []
            then filter (\<lambda>m. sql_like (Prefix opts @ ''%'') (m_Path m)) tbl
            else tbl))"

definition Delete :: "string \<Rightarrow> table \<Rightarrow> error option \<times> table" where
  "Delete ident tbl =
     (case GetByID ident tbl of
        Inl err \<Rightarrow> (Some err, tbl)
      | Inr m \<Rightarrow> (None, filter (\<lambda>m. m_ID m \<noteq> ident) tbl))"

section \<open>The Terraform state engine (service/tfstate.go)\<close>

definition tfStatePath :: "string \<Rightarrow> string" where
  "tfStatePath stateID = ''tfstate/'' @ stateID"

definition tfStateLockPath :: "string \<Rightarrow> string" where
  "tfStateLockPath stateID = ''tfstate/'' @ stateID @ ''.lock''"

definition metadataByExactPath :: "string \<Rightarrow> table \<Rightarrow> error + Metadata" where
  "metadataByExactPath path tbl =
     (case List_md \<lparr>Prefix = path\<rparr> tbl of
        Inl err \<Rightarrow> Inl err
      | Inr items \<Rightarrow>
          (case find (\<lambda>m. m_Path m = path) items of
             Some m \<Rightarrow> Inr m
           | None \<Rightarrow> Inl (NotFoundError ''metadata'' path)))"


definition updateMetadataValue :: "string \<Rightarrow> string \<Rightarrow> table \<Rightarrow> error option \<times> table" where
  "updateMetadataValue ident v tbl =
     (case Update ident \<lparr>ur_Path = None, ur_Value = Some v\<rparr> tbl of
        (Inl err, tbl') \<Rightarrow> (Some err, tbl')
      | (Inr m, tbl') \<Rightarrow> (None, tbl'))"

definition SetTFState :: "string \<Rightarrow> string \<Rightarrow> string \<Rightarrow> table \<Rightarrow> error option \<times> table" where
  "SetTFState uid stateID stateJSON tbl =
     (let path = tfStatePath stateID in
      case metadataByExactPath path tbl of
        Inl err \<Rightarrow>
          if IsNotFound err
          then (case Create uid \<lparr>cr_Path = path, cr_Value = stateJSON\<rparr> tbl of
                  (Inl err', tbl') \<Rightarrow> (Some err', tbl')
                | (Inr m, tbl') \<Rightarrow> (None, tbl'))
          else (Some err, tbl)
      | Inr m \<Rightarrow> updateMetadataValue (m_ID m) stateJSON tbl)"

definition DeleteTFState :: "string \<Rightarrow> table \<Rightarrow> error option \<times> table" where
  "DeleteTFState stateID tbl =
     (let path = tfStatePath stateID in
      case metadataByExactPath path tbl of
        Inl err \<Rightarrow> if IsNotFound err then (None, tbl) else (Some err, tbl)
      | Inr m \<Rightarrow> Delete (m_ID m) tbl)"

text \<open>
  \<open>json.Unmarshal\<close> into a \<open>TFStateLock\<close> belongs to the Go library: the decoder
  is the parameter \<open>unmarshal\<close>, which yields \<open>None\<close> where the library reports an
  error. The result of \<open>GetTFStateLock\<close> is the raw payload and the parsed lock,
  \<open>None\<close> for Go's nil pointer.
\<close>

definition GetTFStateLock ::
  "(string \<Rightarrow> TFStateLock option) \<Rightarrow> string \<Rightarrow> table \<Rightarrow> error + (string \<times> TFStateLock option)" where
  "GetTFStateLock unmarshal stateID tbl =
     (case metadataByExactPath (tfStateLockPath stateID) tbl of
        Inl err \<Rightarrow> Inl err
      | Inr m \<Rightarrow>
          (case unmarshal (m_Value m) of
             None \<Rightarrow> Inr (m_Value m, None)
           | Some li \<Rightarrow> Inr (m_Value m, Some li)))"

text \<open>
  \<open>TryLockTFState\<close> and \<open>UnlockTFState\<close> return Go's triple, with the error last,
  and the table after the call.
\<close>

definition TryLockTFState ::
  "string \<Rightarrow> string \<Rightarrow> string \<Rightarrow> table \<Rightarrow> (bool \<times> string \<times> error option) \<times> table" where
  "TryLockTFState uid stateID lockJSON tbl =
     (let path = tfStateLockPath stateID in
      case metadataByExactPath path tbl of
        Inl err \<Rightarrow>
          if IsNotFound err
          then (case Create uid \<lparr>cr_Path = path, cr_Value = lockJSON\<rparr> tbl of
                  (Inl err', tbl') \<Rightarrow> ((False, [], Some err'), tbl')
                | (Inr m, tbl') \<Rightarrow> ((False, [], None), tbl'))
          else ((False, [], Some err), tbl)
      | Inr m \<Rightarrow> ((True, m_Value m, None), tbl))"

definition UnlockTFState :: "string \<Rightarrow> table \<Rightarrow> (bool \<times> string \<times> error option) \<times> table" where
  "UnlockTFState stateID tbl =
     (let path = tfStateLockPath stateID in
      case metadataByExactPath path tbl of
        Inl err \<Rightarrow>
          if IsNotFound err then ((False, [], None), tbl) else ((False, [], Some err), tbl)
      | Inr m \<Rightarrow>
          (case Delete (m_ID m) tbl of
             (Some err, tbl') \<Rightarrow> ((False, [], Some err), tbl')
           | (None, tbl') \<Rightarrow> ((True, m_Value m, None), tbl')))"

section \<open>The HTTP boundary (api/handlers.go, api/router.go)\<close>

text \<open>
  A request as the handlers read it: the header map (keys in canonical form), the
  parsed query of the URL, the route variables of gorilla/mux, and the result of
  reading the body to its end. \<open>Values_Get\<close> is the \<open>Get\<close> of \<open>http.Header\<close> and
  of \<open>url.Values\<close>: the first value stored under the key, the empty string when
  there is none.
\<close>

record Request =
  Header :: "string \<rightharpoonup> string list"
  URL_Query :: "string \<rightharpoonup> string list"
  mux_Vars :: "string \<rightharpoonup> string"
  Body :: "error + string"

definition Values_Get :: "(string \<rightharpoonup> string list) \<Rightarrow> string \<Rightarrow> string" where
  "Values_Get vs key = (case vs key of None \<Rightarrow> [] | Some [] \<Rightarrow> [] | Some (v # _) \<Rightarrow> v)"


text \<open>
  A response as the handlers write it: the headers set, the status code, and the
  body, which is nothing, raw bytes, or the JSON encoding of an error.
\<close>

datatype payload = NoBody | Raw string | ErrorJSON error














section \<open>The chaos engine (service/chaos/chaos.go)\<close>

text \<open>
  Go's \<open>int\<close>, \<open>int64\<close> and \<open>time.Duration\<close> are 64-bit two's complement: they are
  modelled as \<open>int\<close>, every sum and product being wrapped by \<open>wrap64\<close>. The
  error rates and the draws are \<open>float64\<close> values that are only ever compared:
  they are modelled as \<open>real\<close>, on which the comparison of finite floats is
  exact (a rate that is not a number is outside the model).
\<close>

definition wrap64 :: "int \<Rightarrow> int" where
  "wrap64 x = signed_take_bit 63 x"

definition Millisecond :: int where
  \<comment> \<open>\<open>time.Millisecond\<close>, in nanoseconds\<close>
  "Millisecond = 1000000"

record LatencyRange =
  lr_Min :: int
  lr_Max :: int

record Config =
  Enabled :: bool
  Seed :: int
  GlobalLatencyRange :: "LatencyRange option"
  ProjectsLatencyRange :: "LatencyRange option"
  InstancesLatencyRange :: "LatencyRange option"
  MetadataLatencyRange :: "LatencyRange option"
  ProjectsErrorRate :: real
  ProjectsGetErrorRate :: real
  InstancesErrorRate :: real
  MetadataErrorRate :: real
  ErrorTypes :: "int list"
  ErrorWeights :: "int list"

text \<open>
  The generator of \<open>math/rand\<close> is modelled from its documented contract:
  \<open>Float64\<close> returns a number in \<open>[0, 1)\<close>, \<open>Intn n\<close> returns a number in
  \<open>[0, n)\<close> and panics when \<open>n \<le> 0\<close>, and each call advances the generator.
  A generator is a tape of outcomes, one per call, and the count of the calls made;
  the outcome of a call is the fractional part \<open>u\<close> of the tape's entry, read as
  \<open>u\<close> by \<open>Float64\<close> and as \<open>\<lfloor>u * n\<rfloor>\<close> by \<open>Intn n\<close>. The field \<open>rng\<close> of the
  service is a pointer, nil when the service was built disabled: a call on the nil
  generator panics. A panic is the left summand of the results, with its message.
\<close>

record Rand =
  tape :: "nat \<Rightarrow> real"
  draws :: nat

definition Float64 :: "Rand option \<Rightarrow> string + (real \<times> Rand)" where
  "Float64 rg =
     (case rg of
        None \<Rightarrow> Inl ''invalid memory address or nil pointer dereference''
      | Some g \<Rightarrow> Inr (frac (tape g (draws g)), g\<lparr>draws := Suc (draws g)\<rparr>))"

definition Intn :: "Rand option \<Rightarrow> int \<Rightarrow> string + (int \<times> Rand)" where
  "Intn rg n =
     (case rg of
        None \<Rightarrow> Inl ''invalid memory address or nil pointer dereference''
      | Some g \<Rightarrow>
          if n \<le> 0 then Inl ''invalid argument to Intn''
          else Inr (\<lfloor>frac (tape g (draws g)) * of_int n\<rfloor>, g\<lparr>draws := Suc (draws g)\<rparr>))"

record ChaosService =
  config :: Config
  rng :: "Rand option"

definition NewChaosServiceWithConfig :: "(nat \<Rightarrow> real) \<Rightarrow> Config \<Rightarrow> ChaosService" where
  \<comment> \<open>the tape stands for the stream that \<open>rand.NewSource(config.Seed)\<close> determines\<close>
  "NewChaosServiceWithConfig t cfg =
     \<lparr>config = cfg, rng = (if Enabled cfg then Some \<lparr>tape = t, draws = 0\<rparr> else None)\<rparr>"

text \<open>
  \<open>strconv.Atoi\<close>, modelled from its documentation: an optional sign, then one or
  more decimal digits, and an error when the value does not fit 64 bits.
\<close>

definition digit_val :: "char \<Rightarrow> nat option" where
  "digit_val ch =
     (let n = (of_char ch :: nat) in if 48 \<le> n \<and> n \<le> 57 then Some (n - 48) else None)"

fun parse_digits :: "string \<Rightarrow> nat \<Rightarrow> nat option" where
  "parse_digits [] acc = Some acc"
| "parse_digits (ch # s) acc =
     (case digit_val ch of None \<Rightarrow> None | Some d \<Rightarrow> parse_digits s (acc * 10 + d))"

definition Atoi :: "string \<Rightarrow> int option" where
  "Atoi s =
     (let neg = (case s of [] \<Rightarrow> False | c # t \<Rightarrow> c = CHR ''-'');
          ds = (case s of [] \<Rightarrow> [] | c # t \<Rightarrow> if c = CHR ''-'' \<or> c = CHR ''+'' then t else s)
      in if ds = [] then None
         else case parse_digits ds 0 of
                None \<Rightarrow> None
              | Some n \<Rightarrow>
                  let v = (if neg then - int n else int n)
                  in if - (2 ^ 63) \<le> v \<and> v < 2 ^ 63 then Some v else None)"

text \<open>
  Indexing a slice panics out of range.
\<close>

definition index :: "int list \<Rightarrow> nat \<Rightarrow> string + int" where
  "index xs i = (if i < length xs then Inr (xs ! i) else Inl ''index out of range'')"

text \<open>
  The second loop of \<open>selectWeightedErrorType\<close>: the index of the first weight at
  which the running sum exceeds the target, if there is one.
\<close>

fun weight_scan :: "int list \<Rightarrow> int \<Rightarrow> int \<Rightarrow> nat \<Rightarrow> nat option" where
  "weight_scan [] target currentWeight i = None"
| "weight_scan (weight # ws) target currentWeight i =
     (let currentWeight' = wrap64 (currentWeight + weight)
      in if target < currentWeight' then Some i
         else weight_scan ws target currentWeight' (Suc i))"

definition totalWeight :: "int list \<Rightarrow> int" where
  \<comment> \<open>the first loop of \<open>selectWeightedErrorType\<close>\<close>
  "totalWeight ws = fold (\<lambda>weight total. wrap64 (total + weight)) ws 0"

definition selectWeightedErrorType :: "ChaosService \<Rightarrow> string + (int \<times> ChaosService)" where
  "selectWeightedErrorType c =
     (let types = ErrorTypes (config c); weights = ErrorWeights (config c) in
      if length types = 0 then Inr (500, c)
      else if length weights \<noteq> length types
      then (case Intn (rng c) (int (length types)) of
              Inl p \<Rightarrow> Inl p
            | Inr (k, g) \<Rightarrow>
                (case index types (nat k) of
                   Inl p \<Rightarrow> Inl p
                 | Inr code \<Rightarrow> Inr (code, c\<lparr>rng := Some g\<rparr>)))
      else if totalWeight weights = 0
      then (case index types 0 of Inl p \<Rightarrow> Inl p | Inr code \<Rightarrow> Inr (code, c))
      else (case Intn (rng c) (totalWeight weights) of
              Inl p \<Rightarrow> Inl p
            | Inr (target, g) \<Rightarrow>
                (case index types (case weight_scan weights target 0 0 of
                                     Some i \<Rightarrow> i | None \<Rightarrow> 0) of
                   Inl p \<Rightarrow> Inl p
                 | Inr code \<Rightarrow> Inr (code, c\<lparr>rng := Some g\<rparr>))))"

definition maybeInjectError :: "ChaosService \<Rightarrow> real \<Rightarrow> string + (error option \<times> ChaosService)" where
  "maybeInjectError c errorRate =
     (if errorRate \<le> 0 then Inr (None, c)
      else case Float64 (rng c) of
             Inl p \<Rightarrow> Inl p
           | Inr (draw, g) \<Rightarrow>
               if draw > errorRate then Inr (None, c\<lparr>rng := Some g\<rparr>)
               else (case selectWeightedErrorType (c\<lparr>rng := Some g\<rparr>) of
                       Inl p \<Rightarrow> Inl p
                     | Inr (errorCode, c') \<Rightarrow>
                         Inr (Some (if errorCode = 429
                                    then TooManyRequestsError ''chaos: rate limited''
                                    else if errorCode = 500
                                    then InternalError ''chaos: internal server error''
                                    else if errorCode = 503
                                    then ServiceUnavailableError ''chaos: service unavailable''
                                    else InternalError ''chaos: unknown error''), c')))"

text \<open>
  \<open>applyLatency\<close> returns the waits it makes: each \<open>select\<close> on \<open>time.After(d)\<close> and
  the context's \<open>Done\<close> channel is recorded as the duration \<open>d\<close> of its timer, in
  nanoseconds. How long the wait lasts in real time, and that a cancelled context
  ends it early, is outside the model.
\<close>

definition applyLatency ::
  "ChaosService \<Rightarrow> Request \<Rightarrow> LatencyRange option \<Rightarrow> string + (int list \<times> ChaosService)" where
  "applyLatency c r resourceRange =
     (let forcedLatency = Values_Get (Header r) ''X-Nah-Latency'';
          forced = (if forcedLatency \<noteq> []
                    then (case Atoi forcedLatency of
                            Some ms \<Rightarrow> if ms > 0 then Some ms else None
                          | None \<Rightarrow> None)
                    else None)
      in case forced of
           Some ms \<Rightarrow> Inr ([wrap64 (ms * Millisecond)], c)
         | None \<Rightarrow>
             let latencyRange = (case resourceRange of
                                   Some rr \<Rightarrow> Some rr
                                 | None \<Rightarrow> GlobalLatencyRange (config c))
             in case latencyRange of
                  None \<Rightarrow> Inr ([], c)
                | Some lr \<Rightarrow>
                    (case (if lr_Max lr > lr_Min lr
                           then (case Intn (rng c) (wrap64 (wrap64 (lr_Max lr - lr_Min lr) + 1)) of
                                   Inl p \<Rightarrow> Inl p
                                 | Inr (k, g) \<Rightarrow> Inr (wrap64 (lr_Min lr + k), c\<lparr>rng := Some g\<rparr>))
                           else Inr (lr_Min lr, c)) of
                       Inl p \<Rightarrow> Inl p
                     | Inr (latency, c') \<Rightarrow>
                         if latency > 0 then Inr ([wrap64 (latency * Millisecond)], c')
                         else Inr ([], c')))"





section \<open>Sample data for the concrete runs\<close>

text \<open>
  A table with one state entry and the same table holding a lock for it, a decoder
  that agrees with \<open>json.Unmarshal\<close> on the payloads used, a handler with a
  token and requests that carry it, and a chaos service whose generator always
  yields one half.
\<close>

definition sample_table :: table where
  "sample_table = [\<lparr>m_ID = ''u0'', m_Path = ''tfstate/prod'', m_Value = ''{}''\<rparr>]"

definition lock_payload_A :: string where
  \<open>lock_payload_A = ''{"ID":"A"}''\<close>


definition locked_table :: table where
  "locked_table =
     [\<lparr>m_ID = ''u0'', m_Path = ''tfstate/prod'', m_Value = ''{}''\<rparr>,
      \<lparr>m_ID = ''u1'', m_Path = ''tfstate/prod.lock'', m_Value = lock_payload_A\<rparr>]"



definition sample_config :: Config where
  "sample_config =
     \<lparr>Enabled = True, Seed = 42,
      GlobalLatencyRange = Some \<lparr>lr_Min = 10, lr_Max = 20\<rparr>,
      ProjectsLatencyRange = None, InstancesLatencyRange = None, MetadataLatencyRange = None,
      ProjectsErrorRate = 1, ProjectsGetErrorRate = 0,
      InstancesErrorRate = 1, MetadataErrorRate = 1,
      ErrorTypes = [500, 503], ErrorWeights = [1, 1]\<rparr>"

definition half_tape :: "nat \<Rightarrow> real" where
  \<comment> \<open>a generator whose every outcome is one half\<close>
  "half_tape i = 1 / 2"

definition sample_service :: ChaosService where
  "sample_service = NewChaosServiceWithConfig half_tape sample_config"

definition header_request :: "string \<Rightarrow> string \<Rightarrow> Request" where
  \<comment> \<open>a request carrying the one header given\<close>
  "header_request key v =
     \<lparr>Header = [key \<mapsto> [v]], URL_Query = Map.empty, mux_Vars = Map.empty, Body = Inr []\<rparr>"

definition negative_weight_service :: ChaosService where
  "negative_weight_service =
     sample_service\<lparr>config := sample_config\<lparr>ErrorTypes := [500], ErrorWeights := [- 1]\<rparr>\<rparr>"

definition overflowing_weight_service :: ChaosService where
  "overflowing_weight_service =
     sample_service\<lparr>config := sample_config\<lparr>ErrorTypes := [500, 503],
        ErrorWeights := [4611686018427387904, 4611686018427387904]\<rparr>\<rparr>"

section \<open>Lookup by exact path\<close>

lemma sql_like_percent: "sql_like ps s \<Longrightarrow> sql_like (CHR ''%'' # ps) s"
  by (cases s) simp_all

lemma sql_like_self_prefix: "sql_like (s @ ''%'') s"
proof (induction s)
  case Nil
  show ?case by simp
next
  case (Cons c s)
  show ?case
  proof (cases "c = CHR ''%''")
    case True
    have "sql_like (CHR ''%'' # s @ ''%'') s"
      using Cons.IH by (rule sql_like_percent)
    with True show ?thesis by simp
  next
    case False
    with Cons.IH show ?thesis by simp
  qed
qed

lemma find_as_filter:
  "find P xs = (case filter P xs of [] \<Rightarrow> None | x # _ \<Rightarrow> Some x)"
  by (induction xs) simp_all

lemma find_sort_key_eq:
  "find (\<lambda>m. f m = k) (sort_key f xs) = find (\<lambda>m. f m = k) xs"
  by (simp add: find_as_filter sort_key_stable)

lemma find_filter_implied:
  assumes "\<And>x. P x \<Longrightarrow> Q x"
  shows "find P (filter Q xs) = find P xs"
  using assms by (induction xs) auto

text \<open>The prefix listing followed by the exact comparison is a lookup by path.\<close>

lemma metadataByExactPath_find:
  "metadataByExactPath path tbl =
     (case find (\<lambda>m. m_Path m = path) tbl of
        Some m \<Rightarrow> Inr m
      | None \<Rightarrow> Inl (NotFoundError ''metadata'' path))"
proof -
  have "find (\<lambda>m. m_Path m = path)
          (filter (\<lambda>m. sql_like (path @ ''%'') (m_Path m)) tbl)
        = find (\<lambda>m. m_Path m = path) tbl"
    by (rule find_filter_implied) (simp add: sql_like_self_prefix)
  then show ?thesis
    by (simp add: metadataByExactPath_def List_md_def find_sort_key_eq)
qed


lemma find_SomeD: "find P xs = Some x \<Longrightarrow> x \<in> set xs \<and> P x"
  by (induction xs) (auto split: if_splits)

lemma find_distinct_key:
  "distinct (map f xs) \<Longrightarrow> x \<in> set xs \<Longrightarrow> find (\<lambda>y. f y = f x) xs = Some x"
  by (induction xs) (auto simp: image_iff)

lemma find_path_map:
  assumes "\<And>x. x \<in> set xs \<Longrightarrow> m_Path (g x) = m_Path x"
  shows "find (\<lambda>m. m_Path m = p) (map g xs) = map_option g (find (\<lambda>m. m_Path m = p) xs)"
  using assms by (induction xs) auto

lemma find_path_snoc_new:
  "find (\<lambda>m. m_Path m = p) tbl = None \<Longrightarrow> m_Path x = p \<Longrightarrow>
   find (\<lambda>m. m_Path m = p) (tbl @ [x]) = Some x"
  by (induction tbl) (auto split: if_splits)

lemma pathExists_find: "pathExists p tbl = (find (\<lambda>m. m_Path m = p) tbl \<noteq> None)"
  by (induction tbl) (auto simp: pathExists_def)

lemma wf_same_id:
  "wf_table tbl \<Longrightarrow> x \<in> set tbl \<Longrightarrow> y \<in> set tbl \<Longrightarrow> m_ID x = m_ID y \<Longrightarrow> x = y"
  by (auto simp: wf_table_def distinct_map dest: inj_onD)

lemma wf_same_path:
  "wf_table tbl \<Longrightarrow> x \<in> set tbl \<Longrightarrow> y \<in> set tbl \<Longrightarrow> m_Path x = m_Path y \<Longrightarrow> x = y"
  by (auto simp: wf_table_def distinct_map dest: inj_onD)

lemma GetByID_member:
  "wf_table tbl \<Longrightarrow> m \<in> set tbl \<Longrightarrow> GetByID (m_ID m) tbl = Inr m"
  by (simp add: GetByID_def wf_table_def find_distinct_key)

text \<open>What a creation at an unused path with an unused identifier does.\<close>

lemma Create_fresh:
  assumes "find (\<lambda>m. m_Path m = p) tbl = None" and "uid \<notin> m_ID ` set tbl"
  shows "Create uid \<lparr>cr_Path = p, cr_Value = v\<rparr> tbl =
           (Inr \<lparr>m_ID = uid, m_Path = p, m_Value = v\<rparr>,
            tbl @ [\<lparr>m_ID = uid, m_Path = p, m_Value = v\<rparr>])"
  using assms by (simp add: Create_def pathExists_find Let_def)

text \<open>What the update of the value of a stored row does.\<close>

lemma updateMetadataValue_member:
  assumes "wf_table tbl" and "m \<in> set tbl"
  shows "updateMetadataValue (m_ID m) v tbl =
           (None, map (\<lambda>x. if m_ID x = m_ID m then x\<lparr>m_Path := m_Path m, m_Value := v\<rparr> else x) tbl)"
  using assms by (simp add: updateMetadataValue_def Update_def GetByID_member Let_def)

lemma find_after_update:
  assumes wf: "wf_table tbl" and m: "find (\<lambda>x. m_Path x = p) tbl = Some m"
  shows "find (\<lambda>x. m_Path x = p)
           (map (\<lambda>x. if m_ID x = m_ID m then x\<lparr>m_Path := m_Path m, m_Value := v\<rparr> else x) tbl)
         = Some (m\<lparr>m_Value := v\<rparr>)"
proof -
  let ?g = "\<lambda>x. if m_ID x = m_ID m then x\<lparr>m_Path := m_Path m, m_Value := v\<rparr> else x"
  from m have mem: "m \<in> set tbl" and mp: "m_Path m = p"
    using find_SomeD [of "\<lambda>x. m_Path x = p" tbl m] by simp_all
  have keep: "\<And>x. x \<in> set tbl \<Longrightarrow> m_Path (?g x) = m_Path x"
    using wf mem by (auto dest: wf_same_id)
  have "find (\<lambda>x. m_Path x = p) (map ?g tbl) = map_option ?g (find (\<lambda>x. m_Path x = p) tbl)"
    using keep by (rule find_path_map)
  then show ?thesis using m by simp
qed

lemma Delete_member:
  assumes "wf_table tbl" and "m \<in> set tbl"
  shows "Delete (m_ID m) tbl = (None, filter (\<lambda>x. m_Path x \<noteq> m_Path m) tbl)"
proof -
  have "filter (\<lambda>x. m_ID x \<noteq> m_ID m) tbl = filter (\<lambda>x. m_Path x \<noteq> m_Path m) tbl"
    using assms by (intro filter_cong) (auto dest: wf_same_id wf_same_path)
  then show ?thesis using assms by (simp add: Delete_def GetByID_member)
qed

lemma filter_absent_path:
  "p \<notin> m_Path ` set tbl \<Longrightarrow> filter (\<lambda>x. m_Path x \<noteq> p) tbl = tbl"
  by (induction tbl) auto

lemma IsNotFound_NotFoundError [simp]: "IsNotFound (NotFoundError r i)"
  by (simp add: NotFoundError_def)

text \<open>The engine's operations, by whether the derived path is stored.\<close>

lemma SetTFState_result:
  assumes "wf_table tbl" and "uid \<notin> m_ID ` set tbl"
  shows "fst (SetTFState uid stateID v tbl) = None \<and>
         (\<exists>m. find (\<lambda>x. m_Path x = tfStatePath stateID) (snd (SetTFState uid stateID v tbl)) = Some m
              \<and> m_Value m = v)"
proof (cases "find (\<lambda>x. m_Path x = tfStatePath stateID) tbl")
  case None
  then show ?thesis
    using assms(2)
    by (simp add: SetTFState_def metadataByExactPath_find Create_fresh find_path_snoc_new)
next
  case (Some m)
  then have mem: "m \<in> set tbl" using find_SomeD by fastforce
  show ?thesis
    using Some
    by (simp add: SetTFState_def metadataByExactPath_find
          updateMetadataValue_member [OF assms(1) mem] find_after_update [OF assms(1) Some])
qed

lemma map_update_ids:
  "map m_ID (map (\<lambda>x. if m_ID x = i then x\<lparr>m_Path := p, m_Value := v\<rparr> else x) tbl) = map m_ID tbl"
  by (induction tbl) auto

lemma SetTFState_wf:
  assumes "wf_table tbl" and "uid \<notin> m_ID ` set tbl"
  shows "wf_table (snd (SetTFState uid stateID v tbl))"
proof (cases "find (\<lambda>x. m_Path x = tfStatePath stateID) tbl")
  case None
  then have "tfStatePath stateID \<notin> m_Path ` set tbl"
    by (auto simp: find_None_iff)
  then show ?thesis
    using None assms
    by (simp add: SetTFState_def metadataByExactPath_find Create_fresh wf_table_def)
next
  case (Some m)
  then have mem: "m \<in> set tbl" using find_SomeD by fastforce
  let ?g = "\<lambda>x. if m_ID x = m_ID m then x\<lparr>m_Path := m_Path m, m_Value := v\<rparr> else x"
  have same: "m_Path (?g x) = m_Path x" if "x \<in> set tbl" for x
    using assms(1) mem that by (auto dest: wf_same_id)
  have eqp: "map m_Path (map ?g tbl) = map m_Path tbl"
    unfolding map_map by (rule map_cong) (simp_all add: same)
  have "wf_table (map ?g tbl)"
    using assms(1) by (simp only: wf_table_def eqp map_update_ids)
  then show ?thesis
    using Some
    by (simp add: SetTFState_def metadataByExactPath_find
          updateMetadataValue_member [OF assms(1) mem])
qed


section \<open>Claims about the state engine\<close>




text \<open>
  Claim C10. The two derived paths collide across the entry kinds: the state path
  of \<open>s @ ''.lock''\<close> is the lock path of \<open>s\<close>, and a state path equals a lock
  path only in this way. Hence \<open>SetTFState\<close> on the state identifier
  \<open>x @ ''.lock''\<close> writes the very row that \<open>GetTFStateLock\<close>, \<open>TryLockTFState\<close>
  and \<open>UnlockTFState\<close> for \<open>x\<close> take for the lock of \<open>x\<close>.
\<close>

theorem C10_state_and_lock_paths_collide:
  assumes "wf_table tbl" and "uid \<notin> m_ID ` set tbl"
  shows "tfStatePath (s @ ''.lock'') = tfStateLockPath s
       \<and> (tfStatePath a = tfStateLockPath b \<longleftrightarrow> a = b @ ''.lock'')
       \<and> fst (SetTFState uid (x @ ''.lock'') v tbl) = None
       \<and> GetTFStateLock unmarshal x (snd (SetTFState uid (x @ ''.lock'') v tbl))
           = Inr (v, unmarshal v)
       \<and> fst (TryLockTFState uid2 x payload (snd (SetTFState uid (x @ ''.lock'') v tbl)))
           = (True, v, None)
       \<and> fst (fst (UnlockTFState x (snd (SetTFState uid (x @ ''.lock'') v tbl))))"
proof -
  let ?tbl' = "snd (SetTFState uid (x @ ''.lock'') v tbl)"
  have paths: "tfStatePath (x @ ''.lock'') = tfStateLockPath x" for x
    by (simp add: tfStatePath_def tfStateLockPath_def)
  have iff: "tfStatePath a = tfStateLockPath b \<longleftrightarrow> a = b @ ''.lock''"
    by (simp add: tfStatePath_def tfStateLockPath_def)
  from SetTFState_result [OF assms, of "x @ ''.lock''" v]
  obtain m where ok: "fst (SetTFState uid (x @ ''.lock'') v tbl) = None"
    and m: "find (\<lambda>r. m_Path r = tfStateLockPath x) ?tbl' = Some m" and mv: "m_Value m = v"
    by (auto simp: paths)
  have wf': "wf_table ?tbl'"
    using assms by (rule SetTFState_wf)
  have mem: "m \<in> set ?tbl'"
    using m find_SomeD by fastforce
  have getlock: "GetTFStateLock unmarshal x ?tbl' = Inr (v, unmarshal v)"
    using m mv by (simp add: GetTFStateLock_def metadataByExactPath_find split: option.split)
  have trylock: "fst (TryLockTFState uid2 x payload ?tbl') = (True, v, None)"
    using m mv by (simp add: TryLockTFState_def metadataByExactPath_find)
  have unlock: "fst (fst (UnlockTFState x ?tbl'))"
    using m by (simp add: UnlockTFState_def metadataByExactPath_find Delete_member [OF wf' mem])
  show ?thesis
    using paths iff ok getlock trylock unlock by simp
qed

section \<open>Concrete runs of the state engine\<close>




theorem C10_state_and_lock_paths_collide_witness:
  "wf_table sample_table \<and> ''u1'' \<notin> m_ID ` set sample_table
   \<and> tfStatePath ''prod.lock'' = tfStateLockPath ''prod''
   \<and> fst (SetTFState ''u1'' ''prod.lock'' ''not a lock'' sample_table) = None
   \<and> GetTFStateLock (\<lambda>s. None) ''prod''
        (snd (SetTFState ''u1'' ''prod.lock'' ''not a lock'' sample_table))
       = Inr (''not a lock'', None)"
proof -
  have h1: "wf_table sample_table"
    by (simp add: sample_table_def wf_table_def)
  have h2: "''u1'' \<notin> m_ID ` set sample_table"
    by (simp add: sample_table_def)
  show ?thesis
    using h1 h2
      C10_state_and_lock_paths_collide [OF h1 h2, of "''prod''" "''''" "''''" "''prod''"
        "''not a lock''" "\<lambda>s. None" "''u2''" "''''"]
    by simp
qed

section \<open>Claims about the HTTP boundary\<close>


lemma DeleteTFState_result:
  assumes "wf_table tbl"
  shows "DeleteTFState stateID tbl = (None, filter (\<lambda>x. m_Path x \<noteq> tfStatePath stateID) tbl)"
proof (cases "find (\<lambda>x. m_Path x = tfStatePath stateID) tbl")
  case None
  then have "tfStatePath stateID \<notin> m_Path ` set tbl"
    by (auto simp: find_None_iff)
  then show ?thesis
    using None by (simp add: DeleteTFState_def metadataByExactPath_find filter_absent_path)
next
  case (Some m)
  then have mem: "m \<in> set tbl" and mp: "m_Path m = tfStatePath stateID"
    using find_SomeD [of "\<lambda>x. m_Path x = tfStatePath stateID" tbl m] by simp_all
  show ?thesis
    using Some mp
    by (simp add: DeleteTFState_def metadataByExactPath_find Delete_member [OF assms mem])
qed

lemma UnlockTFState_result:
  assumes "wf_table tbl"
  shows "snd (snd (fst (UnlockTFState stateID tbl))) = None \<and>
         snd (UnlockTFState stateID tbl) = filter (\<lambda>x. m_Path x \<noteq> tfStateLockPath stateID) tbl"
proof (cases "find (\<lambda>x. m_Path x = tfStateLockPath stateID) tbl")
  case None
  then have "tfStateLockPath stateID \<notin> m_Path ` set tbl"
    by (auto simp: find_None_iff)
  then show ?thesis
    using None by (simp add: UnlockTFState_def metadataByExactPath_find filter_absent_path)
next
  case (Some m)
  then have mem: "m \<in> set tbl" and mp: "m_Path m = tfStateLockPath stateID"
    using find_SomeD [of "\<lambda>x. m_Path x = tfStateLockPath stateID" tbl m] by simp_all
  show ?thesis
    using Some mp
    by (simp add: UnlockTFState_def metadataByExactPath_find Delete_member [OF assms mem])
qed




subsection \<open>Concrete runs of the handlers\<close>








section \<open>The uniqueness constraints are an invariant\<close>

text \<open>
  The empty table satisfies the constraints of the schema, and every operation of
  the repository and of the state engine keeps them.
\<close>

lemma wf_table_empty: "wf_table []"
  by (simp add: wf_table_def)

lemma Create_wf:
  assumes "wf_table tbl"
  shows "wf_table (snd (Create uid req tbl))"
proof (cases "pathExists (cr_Path req) tbl \<or> uid \<in> m_ID ` set tbl")
  case True
  then show ?thesis using assms by (auto simp: Create_def Let_def)
next
  case False
  then have "cr_Path req \<notin> m_Path ` set tbl"
    by (auto simp: pathExists_find find_None_iff)
  with False assms show ?thesis
    by (simp add: Create_def Let_def wf_table_def)
qed

lemma filter_wf: "wf_table tbl \<Longrightarrow> wf_table (filter P tbl)"
  by (simp add: wf_table_def distinct_map_filter)

lemma Delete_wf: "wf_table tbl \<Longrightarrow> wf_table (snd (Delete ident tbl))"
  by (simp add: Delete_def filter_wf split: sum.split)

lemma TryLockTFState_wf:
  assumes "wf_table tbl"
  shows "wf_table (snd (TryLockTFState uid stateID lockJSON tbl))"
proof -
  have "snd (TryLockTFState uid stateID lockJSON tbl) = tbl
        \<or> snd (TryLockTFState uid stateID lockJSON tbl)
            = snd (Create uid \<lparr>cr_Path = tfStateLockPath stateID, cr_Value = lockJSON\<rparr> tbl)"
    by (simp add: TryLockTFState_def Let_def split: sum.split prod.split)
  then show ?thesis
    using assms Create_wf [OF assms] by metis
qed

lemma DeleteTFState_wf: "wf_table tbl \<Longrightarrow> wf_table (snd (DeleteTFState stateID tbl))"
  by (simp add: DeleteTFState_result filter_wf)

lemma UnlockTFState_wf: "wf_table tbl \<Longrightarrow> wf_table (snd (UnlockTFState stateID tbl))"
  by (simp add: UnlockTFState_result filter_wf)

text \<open>The locked sample table is what a first lock on the sample table leaves.\<close>

lemma locked_table_by_TryLockTFState:
  "TryLockTFState ''u1'' ''prod'' lock_payload_A sample_table = ((False, [], None), locked_table)"
  by (simp add: TryLockTFState_def metadataByExactPath_find Create_def pathExists_def
        sample_table_def locked_table_def tfStateLockPath_def Let_def)

section \<open>Claims about the chaos engine\<close>




text \<open>
  The tape leaves out no outcome: every number in \<open>[0, 1)\<close> is drawn by
  \<open>Float64\<close> from some generator, and every number in \<open>[0, n)\<close> by \<open>Intn n\<close>.
\<close>

lemma Float64_any_draw:
  "0 \<le> d \<Longrightarrow> d < 1 \<Longrightarrow>
   Float64 (Some \<lparr>tape = (\<lambda>i. d), draws = k\<rparr>) = Inr (d, \<lparr>tape = (\<lambda>i. d), draws = Suc k\<rparr>)"
  by (simp add: Float64_def frac_eq)

lemma Intn_any_outcome:
  "0 \<le> j \<Longrightarrow> j < n \<Longrightarrow>
   Intn (Some \<lparr>tape = (\<lambda>i. of_int j / of_int n), draws = k\<rparr>) n
     = Inr (j, \<lparr>tape = (\<lambda>i. of_int j / of_int n), draws = Suc k\<rparr>)"
proof -
  assume j: "0 \<le> j" "j < n"
  then have "0 \<le> (of_int j / of_int n :: real)" "(of_int j / of_int n :: real) < 1"
    by simp_all
  then have "frac (of_int j / of_int n :: real) = of_int j / of_int n"
    by (simp add: frac_eq)
  then show ?thesis
    using j by (simp add: Intn_def)
qed







lemma Atoi_nonempty: "Atoi s = Some n \<Longrightarrow> s \<noteq> []"
  by (auto simp: Atoi_def)

lemma wrap64_in_range: "- (2 ^ 63) \<le> x \<Longrightarrow> x < 2 ^ 63 \<Longrightarrow> wrap64 x = x"
  by (simp add: wrap64_def signed_take_bit_int_eq_self_iff)

text \<open>
  Claim C6, as amended. When the forced-latency header \<open>X-Nah-Latency\<close> holds an
  integer \<open>n\<close> that is positive, then for every configuration, generator and
  resource range the latency step makes exactly one wait, on a timer of \<open>n\<close>
  milliseconds, and nothing else: the range-based latency is skipped and the
  generator is as before (no draw). The timer's duration is computed in 64-bit
  nanoseconds and is exactly \<open>n\<close> milliseconds for \<open>n\<close> up to 9223372036854.
  (A header value of 0 forces nothing: the step goes on to the range-based
  latency.)
\<close>

theorem C6_forced_latency_positive:
  assumes "Atoi (Values_Get (Header r) ''X-Nah-Latency'') = Some n" and "0 < n"
  shows "applyLatency c r resourceRange = Inr ([wrap64 (n * Millisecond)], c)
       \<and> (n \<le> 9223372036854 \<longrightarrow> wrap64 (n * Millisecond) = n * 1000000)"
proof -
  have "Values_Get (Header r) ''X-Nah-Latency'' \<noteq> []"
    using assms(1) by (rule Atoi_nonempty)
  then have run: "applyLatency c r resourceRange = Inr ([wrap64 (n * Millisecond)], c)"
    using assms by (simp add: applyLatency_def Let_def)
  have "wrap64 (n * Millisecond) = n * 1000000" if "n \<le> 9223372036854"
    unfolding Millisecond_def using that assms(2) by (intro wrap64_in_range) simp_all
  with run show ?thesis by blast
qed

subsection \<open>Concrete runs of the chaos engine\<close>

lemma sample_service_simps:
  "config sample_service = sample_config"
  "rng sample_service = Some \<lparr>tape = half_tape, draws = 0\<rparr>"
  by (simp_all add: sample_service_def NewChaosServiceWithConfig_def sample_config_def)







lemma Atoi_samples:
  "Atoi ''0'' = Some 0" "Atoi ''10'' = Some 10"
  by (simp_all add: Atoi_def digit_val_def)

lemma header_request_get: "Values_Get (Header (header_request key v)) key = v"
  by (simp add: Values_Get_def header_request_def)

text \<open>
  The claim C6 as it is stated fails at \<open>n = 0\<close>: with the header value \<open>0\<close> and a
  global range of 10 to 20 milliseconds, the latency step draws from the generator
  and waits 15 milliseconds.
\<close>

theorem C6_forced_zero_counterexample:
  "Atoi (Values_Get (Header (header_request ''X-Nah-Latency'' ''0'')) ''X-Nah-Latency'') = Some 0
   \<and> applyLatency sample_service (header_request ''X-Nah-Latency'' ''0'') None
       = Inr ([15 * Millisecond], sample_service\<lparr>rng := Some \<lparr>tape = half_tape, draws = 1\<rparr>\<rparr>)"
  by (simp add: header_request_get Atoi_samples applyLatency_def sample_service_simps
        sample_config_def Intn_def half_tape_def wrap64_def Millisecond_def Let_def)

theorem C6_forced_latency_positive_witness:
  "Atoi (Values_Get (Header (header_request ''X-Nah-Latency'' ''10'')) ''X-Nah-Latency'') = Some 10
   \<and> applyLatency sample_service (header_request ''X-Nah-Latency'' ''10'') None
       = Inr ([10 * 1000000], sample_service)"
proof -
  have h: "Atoi (Values_Get (Header (header_request ''X-Nah-Latency'' ''10'')) ''X-Nah-Latency'')
             = Some 10"
    by (simp add: header_request_get Atoi_samples)
  have pos: "(0::int) < 10" by simp
  show ?thesis
    using h C6_forced_latency_positive [OF h pos, of sample_service None]
    by simp
qed

text \<open>
  Claim C7 fails on the code where the weights, as many as the status codes, sum to
  a negative total: the total is not 0, so it is passed to \<open>Intn\<close>, which panics,
  and no status code is returned. This happens for the weights \<open>[-1]\<close>, and for
  positive weights whose 64-bit sum wraps around.
\<close>

theorem C7_negative_total_weight_panics:
  "selectWeightedErrorType negative_weight_service = Inl ''invalid argument to Intn''
   \<and> selectWeightedErrorType overflowing_weight_service = Inl ''invalid argument to Intn''
   \<and> maybeInjectError negative_weight_service 1 = Inl ''invalid argument to Intn''"
  by (simp add: selectWeightedErrorType_def maybeInjectError_def negative_weight_service_def
        overflowing_weight_service_def sample_service_simps sample_config_def Float64_def
        Intn_def totalWeight_def wrap64_def half_tape_def Let_def)

end
